theory Spec2Isabelle
  imports Main "HOL-Library.AList"
begin

section \<open>JavaScript values\<close>

text \<open>
  The builder of \<^verbatim>\<open>src/FormBuilder.js\<close> is dynamically typed: a field value, an
  option or a model property may be \<^verbatim>\<open>undefined\<close>, \<^verbatim>\<open>null\<close>, a boolean, a number, a
  string, an array or a plain object. Numbers are modelled as integers (no claim needs
  fractions or NaN), strings as lists of 8-bit characters, and an object as the list of
  its own properties in insertion order, which is the order \<^verbatim>\<open>Object.keys\<close> gives for
  keys that are not array indices.
\<close>

datatype jsval =
    JUndef
  | JNull
  | JBool bool
  | JNum int
  | JStr string
  | JArr "jsval list"
  | JObj "(string \<times> jsval) list"

type_synonym obj = "(string \<times> jsval) list"

datatype error = TypeError | ReferenceError

text \<open>
  Modelled from the spec: the \<^verbatim>\<open>.isNil\<close> pseudo-property is not declared in the source
  (it is supplied by the build); the spec reads it as the dynamic "is this value absent"
  check, true of \<^verbatim>\<open>null\<close> and \<^verbatim>\<open>undefined\<close> and of nothing else, and never raising.
\<close>

definition isNil :: "jsval \<Rightarrow> bool" where
  "isNil v = (v = JUndef \<or> v = JNull)"

text \<open>A parameter declared \<^verbatim>\<open>p = d\<close> takes the default when the argument is \<^verbatim>\<open>undefined\<close>.\<close>

definition dflt :: "jsval \<Rightarrow> jsval \<Rightarrow> jsval" where
  "dflt d v = (if v = JUndef then d else v)"

text \<open>Truthiness, as tested by \<^verbatim>\<open>if\<close> and \<^verbatim>\<open>||\<close>.\<close>

fun truthy :: "jsval \<Rightarrow> bool" where
  "truthy JUndef = False"
| "truthy JNull = False"
| "truthy (JBool b) = b"
| "truthy (JNum n) = (n \<noteq> 0)"
| "truthy (JStr s) = (s \<noteq> [])"
| "truthy (JArr xs) = True"
| "truthy (JObj kvs) = True"

text \<open>\<^verbatim>\<open>o.k\<close> on an object: the own property, or \<^verbatim>\<open>undefined\<close> (inherited members of
  \<^verbatim>\<open>Object.prototype\<close> are not modelled). \<^verbatim>\<open>o.k = v\<close> keeps the position of an existing
  key and appends a new one (\<open>AList.update\<close>); \<^verbatim>\<open>delete o.k\<close> is \<open>AList.delete\<close>.\<close>

definition get_prop :: "obj \<Rightarrow> string \<Rightarrow> jsval" where
  "get_prop ob k = (case map_of ob k of None \<Rightarrow> JUndef | Some v \<Rightarrow> v)"

fun show_nat :: "nat \<Rightarrow> string" where
  "show_nat n =
     (if n < 10 then [''0123456789'' ! n]
      else show_nat (n div 10) @ [''0123456789'' ! (n mod 10)])"

definition show_int :: "int \<Rightarrow> string" where
  "show_int i = (if i < 0 then CHR ''-'' # show_nat (nat (- i)) else show_nat (nat i))"

fun intercalate :: "string \<Rightarrow> string list \<Rightarrow> string" where
  "intercalate sep [] = []"
| "intercalate sep [s] = s"
| "intercalate sep (s # t # ss) = s @ sep @ intercalate sep (t # ss)"

text \<open>The abstract operation ToString, used by template literals and property keys.
  An array prints its elements joined by commas, \<^verbatim>\<open>null\<close> and \<^verbatim>\<open>undefined\<close> as empty.\<close>

fun ToString :: "jsval \<Rightarrow> string" where
  "ToString JUndef = ''undefined''"
| "ToString JNull = ''null''"
| "ToString (JBool b) = (if b then ''true'' else ''false'')"
| "ToString (JNum n) = show_int n"
| "ToString (JStr s) = s"
| "ToString (JArr xs) =
     intercalate '','' (map (\<lambda>x. if x = JUndef \<or> x = JNull then [] else ToString x) xs)"
| "ToString (JObj kvs) = ''[object Object]''"

text \<open>The method call \<^verbatim>\<open>v.toString()\<close>: reading a property of \<^verbatim>\<open>null\<close> or
  \<^verbatim>\<open>undefined\<close> raises a TypeError.\<close>

definition toString :: "jsval \<Rightarrow> error + string" where
  "toString v = (if isNil v then Inl TypeError else Inr (ToString v))"

text \<open>Strict equality \<^verbatim>\<open>===\<close>. Arrays and objects compare by identity, which this
  value model does not carry: two of them are taken to be different objects.\<close>

fun strict_eq :: "jsval \<Rightarrow> jsval \<Rightarrow> bool" where
  "strict_eq (JArr xs) w = False"
| "strict_eq (JObj kvs) w = False"
| "strict_eq v w = (v = w)"

text \<open>\<^verbatim>\<open>xs.indexOf(v) >= 0\<close>\<close>

definition array_includes :: "jsval list \<Rightarrow> jsval \<Rightarrow> bool" where
  "array_includes xs v = list_ex (\<lambda>x. strict_eq x v) xs"

text \<open>\<^verbatim>\<open>v.length\<close> of a value that is not nil.\<close>

fun js_length :: "jsval \<Rightarrow> jsval" where
  "js_length (JStr s) = JNum (int (length s))"
| "js_length (JArr xs) = JNum (int (length xs))"
| "js_length (JObj kvs) = get_prop kvs ''length''"
| "js_length v = JUndef"

text \<open>\<^verbatim>\<open>base[key]\<close>: an element of an array by index (a number, or the decimal string of
  one), an own property of an object; reading from \<^verbatim>\<open>null\<close> or \<^verbatim>\<open>undefined\<close> raises.
  Members inherited from the prototypes are not modelled.\<close>

definition elements :: "jsval list \<Rightarrow> string \<Rightarrow> jsval" where
  "elements xs k =
     (if k = ''length'' then JNum (int (length xs))
      else case map_of (zip (map show_nat [0 ..< length xs]) xs) k of
             None \<Rightarrow> JUndef | Some v \<Rightarrow> v)"

fun js_index :: "jsval \<Rightarrow> jsval \<Rightarrow> error + jsval" where
  "js_index JUndef key = Inl TypeError"
| "js_index JNull key = Inl TypeError"
| "js_index (JObj kvs) key = Inr (get_prop kvs (ToString key))"
| "js_index (JArr xs) key = Inr (elements xs (ToString key))"
| "js_index (JStr s) key = Inr (elements (map (\<lambda>c. JStr [c]) s) (ToString key))"
| "js_index v key = Inr JUndef"

text \<open>\<^verbatim>\<open>for (const value of list)\<close>: arrays and strings are iterable; a plain object,
  a number, a boolean, \<^verbatim>\<open>null\<close> and \<^verbatim>\<open>undefined\<close> are not, and the loop raises a
  TypeError before its first iteration.\<close>

fun iterate :: "jsval \<Rightarrow> error + jsval list" where
  "iterate (JArr xs) = Inr xs"
| "iterate (JStr s) = Inr (map (\<lambda>c. JStr [c]) s)"
| "iterate v = Inl TypeError"

section \<open>Strings\<close>

text \<open>\<^verbatim>\<open>toUpperCase\<close> and \<^verbatim>\<open>toLocaleUpperCase\<close> on the ASCII letters (characters outside
  ASCII are left as they are; a Turkic locale, where \<^verbatim>\<open>i\<close> has another capital, is not
  modelled).\<close>

definition upper_char :: "char \<Rightarrow> char" where
  "upper_char c =
     (case map_of (zip ''abcdefghijklmnopqrstuvwxyz'' ''ABCDEFGHIJKLMNOPQRSTUVWXYZ'') c of
        None \<Rightarrow> c | Some u \<Rightarrow> u)"

definition toUpperCase :: "string \<Rightarrow> string" where
  "toUpperCase s = map upper_char s"

text \<open>The word characters of a regular expression (\<^verbatim>\<open>\w\<close>), which decide where \<^verbatim>\<open>\b\<close>
  matches, and the class \<^verbatim>\<open>[a-z\x00-\x7F]\<close> under the flag \<^verbatim>\<open>i\<close>: the ASCII characters.\<close>

definition is_word :: "char \<Rightarrow> bool" where
  "is_word c =
     (c \<in> set ''ABCDEFGHIJKLMNOPQRSTUVWXYZabcdefghijklmnopqrstuvwxyz0123456789_'')"

definition is_ascii :: "char \<Rightarrow> bool" where
  "is_ascii c = (\<not> digit7 c)"

text \<open>\<^verbatim>\<open>s.replace(/_/, ' ')\<close>: the expression is not global, only the first underscore
  is replaced.\<close>

fun replace_first_underscore :: "string \<Rightarrow> string" where
  "replace_first_underscore [] = []"
| "replace_first_underscore (c # cs) =
     (if c = CHR ''_'' then CHR '' '' # cs else c # replace_first_underscore cs)"

text \<open>\<^verbatim>\<open>s.replace(/(\b[a-z\x00-\x7F])/gi, s => s.toLocaleUpperCase())\<close>: every ASCII
  character that stands at a word boundary is upper-cased. A match is one character
  long and the boundary test looks at the subject string, so the replacement is a map
  over the positions; \<open>prev\<close> tells whether the character before is a word character.\<close>

fun upcase_boundaries :: "bool \<Rightarrow> string \<Rightarrow> string" where
  "upcase_boundaries prev [] = []"
| "upcase_boundaries prev (c # cs) =
     (if prev \<noteq> is_word c \<and> is_ascii c then upper_char c else c)
       # upcase_boundaries (is_word c) cs"

text \<open>\<^verbatim>\<open>s.replace(/\[ \]/g, '')\<close>: the expression as written in the source has a space
  between the brackets.\<close>

fun remove_bracket_space_bracket :: "string \<Rightarrow> string" where
  "remove_bracket_space_bracket (a # b # c # cs) =
     (if a = CHR ''['' \<and> b = CHR '' '' \<and> c = CHR '']''
      then remove_bracket_space_bracket cs
      else a # remove_bracket_space_bracket (b # c # cs))"
| "remove_bracket_space_bracket cs = cs"

text \<open>\<^verbatim>\<open>s.split(/x/)\<close>\<close>

fun split_x :: "string \<Rightarrow> string \<Rightarrow> string list" where
  "split_x cur [] = [rev cur]"
| "split_x cur (c # cs) =
     (if c = CHR ''x'' then rev cur # split_x [] cs else split_x (c # cur) cs)"

section \<open>Collaborators\<close>

text \<open>
  The builder receives its collaborators through the constructor. \<^verbatim>\<open>html\<close> serializes
  attribute maps and escapes text, \<^verbatim>\<open>app.url\<close> resolves URLs. Their code is not part of
  the source at hand, so they are fields of the builder, and the theorems below hold for
  whatever functions are supplied. \<^verbatim>\<open>html.toHtmlString\<close> wraps a string in a marker
  object whose string conversion is that string; the model keeps the string.
\<close>

record HtmlBuilder =
  attributes :: "obj \<Rightarrow> string"
  entities :: "jsval \<Rightarrow> string"

record UrlGenerator =
  url_current :: string
  url_make :: "jsval \<Rightarrow> jsval \<Rightarrow> string"
  url_route :: "jsval \<Rightarrow> jsval \<Rightarrow> string"

text \<open>A bound model: its \<^verbatim>\<open>getFormValue\<close> method when it has one (taken to return a
  value for every key), and its properties.\<close>

record Model =
  getFormValue :: "(string \<Rightarrow> jsval) option"
  props :: obj

record FormBuilder =
  app :: UrlGenerator
  html :: HtmlBuilder
  csrfToken :: jsval
  model :: "Model option"
  labels :: "string option list"

text \<open>A field name is a string, or absent (\<open>None\<close>: \<^verbatim>\<open>null\<close>, as \<^verbatim>\<open>reset\<close> and
  \<^verbatim>\<open>submit\<close> pass it).\<close>

definition name_val :: "string option \<Rightarrow> jsval" where
  "name_val name = (case name of None \<Rightarrow> JNull | Some n \<Rightarrow> JStr n)"

definition reserved :: "string list" where
  "reserved = [''method'', ''url'', ''route'', ''action'', ''files'']"

definition spoofedMethods :: "string list" where
  "spoofedMethods = [''DELETE'', ''PATCH'', ''PUT'']"

definition skipValueTypes :: "string list" where
  "skipValueTypes = [''file'', ''password'', ''checkbox'', ''radio'']"

section \<open>Value resolution\<close>

text \<open>\<^verbatim>\<open>old\<close> and \<^verbatim>\<open>oldInputIsEmpty\<close> are stubs in the source: no session support yet.\<close>

definition old :: "FormBuilder \<Rightarrow> string option \<Rightarrow> jsval" where
  "old fb name = JNull"

definition oldInputIsEmpty :: "FormBuilder \<Rightarrow> bool" where
  "oldInputIsEmpty fb = True"

text \<open>\<^verbatim>\<open>_transformKey\<close>: four replacements in sequence.\<close>

definition transformKey :: "string \<Rightarrow> string" where
  "transformKey key =
     filter (\<lambda>c. c \<noteq> CHR '']'')
       (map (\<lambda>c. if c = CHR ''['' then CHR ''.'' else c)
         (remove_bracket_space_bracket
           (map (\<lambda>c. if c = CHR ''.'' then CHR ''_'' else c) key)))"

text \<open>\<^verbatim>\<open>_getModelValueAttribute\<close>: \<^verbatim>\<open>key.replace\<close> raises on an absent name, and
  \<^verbatim>\<open>this.model.getFormValue\<close> raises when no model is bound.\<close>

definition getModelValueAttribute :: "FormBuilder \<Rightarrow> string option \<Rightarrow> error + jsval" where
  "getModelValueAttribute fb name =
     (case name of
        None \<Rightarrow> Inl TypeError
      | Some n \<Rightarrow>
          let key = transformKey n in
          (case model fb of
             None \<Rightarrow> Inl TypeError
           | Some m \<Rightarrow>
               (case getFormValue m of
                  Some f \<Rightarrow> Inr (f key)
                | None \<Rightarrow> Inr (get_prop (props m) key))))"

text \<open>\<^verbatim>\<open>getValueAttribute(name, value = null)\<close>\<close>

definition getValueAttribute :: "FormBuilder \<Rightarrow> string option \<Rightarrow> jsval \<Rightarrow> error + jsval" where
  "getValueAttribute fb name value0 =
     (let value = dflt JNull value0 in
      case name of
        None \<Rightarrow> Inr value
      | Some n \<Rightarrow>
          let oldValue = old fb name in
          if \<not> isNil oldValue \<and> n \<noteq> ''_method'' then Inr oldValue
          else if \<not> isNil value then Inr value
          else if model fb \<noteq> None then getModelValueAttribute fb name
          else Inr JNull)"

text \<open>
  The resolution order in the words of the specification, over optional values (absent is
  \<open>None\<close>): an absent name gives the explicit value; otherwise the first available of the
  old input (unless the name is the method-spoofing field), the explicit value and the
  bound model's value.
\<close>

definition present :: "jsval \<Rightarrow> jsval option" where
  "present v = (if isNil v then None else Some v)"

fun first_available :: "'a option list \<Rightarrow> 'a option" where
  "first_available [] = None"
| "first_available (None # xs) = first_available xs"
| "first_available (Some v # xs) = Some v"

definition resolveValue_spec ::
  "string option \<Rightarrow> jsval option \<Rightarrow> jsval option \<Rightarrow> jsval option \<Rightarrow> jsval option" where
  "resolveValue_spec name oldValue explicitValue boundValue =
     (case name of
        None \<Rightarrow> explicitValue
      | Some n \<Rightarrow>
          first_available
            [if n = ''_method'' then None else oldValue, explicitValue, boundValue])"

text \<open>
  The key transform in the words of the specification (section 4.3): every literal
  \<^verbatim>\<open>.\<close> becomes \<^verbatim>\<open>_\<close>, a trailing \<^verbatim>\<open>[]\<close> is removed, every \<^verbatim>\<open>[\<close> becomes \<^verbatim>\<open>.\<close> and
  every \<^verbatim>\<open>]\<close> is removed.
\<close>

definition remove_trailing_brackets :: "string \<Rightarrow> string" where
  "remove_trailing_brackets s =
     (if 2 \<le> length s \<and> drop (length s - 2) s = ''[]'' then take (length s - 2) s else s)"

definition transformKey_spec :: "string \<Rightarrow> string" where
  "transformKey_spec name =
     filter (\<lambda>c. c \<noteq> CHR '']'')
       (map (\<lambda>c. if c = CHR ''['' then CHR ''.'' else c)
         (remove_trailing_brackets
           (map (\<lambda>c. if c = CHR ''.'' then CHR ''_'' else c) name)))"

text \<open>
  The model value lookup in the words of the specification (section 4.3): the model's
  "get form value by key" capability, when it has one, is invoked with the transformed
  key; otherwise the transformed key is read as a property of the model; a missing result
  is absent. When no model is bound there is no model value.
\<close>

definition modelValue_spec :: "FormBuilder \<Rightarrow> string \<Rightarrow> jsval option" where
  "modelValue_spec fb n =
     (case model fb of
        None \<Rightarrow> None
      | Some m \<Rightarrow>
          present (case getFormValue m of
                     Some f \<Rightarrow> f (transformKey_spec n)
                   | None \<Rightarrow> get_prop (props m) (transformKey_spec n)))"

section \<open>Fields\<close>

text \<open>The constructor: no model is bound and no label has been emitted.\<close>

definition newFormBuilder :: "UrlGenerator \<Rightarrow> HtmlBuilder \<Rightarrow> jsval \<Rightarrow> FormBuilder" where
  "newFormBuilder a h t = \<lparr>app = a, html = h, csrfToken = t, model = None, labels = []\<rparr>"

text \<open>\<^verbatim>\<open>getIdAttribute\<close>\<close>

definition getIdAttribute :: "FormBuilder \<Rightarrow> string option \<Rightarrow> obj \<Rightarrow> jsval" where
  "getIdAttribute fb name attrs =
     (if \<not> isNil (get_prop attrs ''id'') then get_prop attrs ''id''
      else if name \<in> set (labels fb) then name_val name
      else JNull)"

text \<open>
  \<^verbatim>\<open>input(type, name, value = null, options = { })\<close>. The options object is the caller's
  and is written in place: the result pairs the outcome with the object as the call
  leaves it, which is also the attribute map handed to the serializer.
\<close>

definition input ::
  "FormBuilder \<Rightarrow> string \<Rightarrow> string option \<Rightarrow> jsval \<Rightarrow> obj \<Rightarrow> (error + string) \<times> obj" where
  "input fb type name value0 options0 =
     (let value = dflt JNull value0;
          options = (if isNil (get_prop options0 ''name'')
                     then AList.update ''name'' (name_val name) options0 else options0);
          idv = getIdAttribute fb name options
      in case (if type \<notin> set skipValueTypes then getValueAttribute fb name value
               else Inr value) of
           Inl e \<Rightarrow> (Inl e, options)
         | Inr value \<Rightarrow>
             let options = AList.update ''id'' idv
                             (AList.update ''value'' value
                               (AList.update ''type'' (JStr type) options))
             in (Inr (''<input'' @ attributes (html fb) options @ ''>''), options))"

definition hidden ::
  "FormBuilder \<Rightarrow> string option \<Rightarrow> jsval \<Rightarrow> obj \<Rightarrow> (error + string) \<times> obj" where
  "hidden fb name value options = input fb ''hidden'' name value options"

text \<open>\<^verbatim>\<open>token()\<close>: the condition as written in the source,
  \<^verbatim>\<open>token.isNil || token.length\<close>.\<close>

definition token :: "FormBuilder \<Rightarrow> (error + string) \<times> obj" where
  "token fb =
     (let token = csrfToken fb;
          token = (if isNil token \<or> truthy (js_length token)
                   then JStr ''UNSUPPORTED'' else token)
      in hidden fb (Some ''_token'') token [])"

section \<open>Form lifecycle\<close>

text \<open>\<^verbatim>\<open>method.toUpperCase()\<close>: only a string has the method.\<close>

definition js_toUpperCase :: "jsval \<Rightarrow> error + string" where
  "js_toUpperCase v = (case v of JStr s \<Rightarrow> Inr (toUpperCase s) | _ \<Rightarrow> Inl TypeError)"

definition getMethod :: "jsval \<Rightarrow> error + string" where
  "getMethod method =
     (case js_toUpperCase method of
        Inl e \<Rightarrow> Inl e
      | Inr m \<Rightarrow> Inr (if m \<noteq> ''GET'' then ''POST'' else m))"

definition getUrlAction :: "FormBuilder \<Rightarrow> jsval \<Rightarrow> string" where
  "getUrlAction fb options =
     (case options of
        JArr xs \<Rightarrow> url_make (app fb) (elements xs ''0'') (JArr (drop 1 xs))
      | _ \<Rightarrow> url_make (app fb) options JUndef)"

definition getRouteAction :: "FormBuilder \<Rightarrow> jsval \<Rightarrow> string" where
  "getRouteAction fb options =
     (case options of
        JArr xs \<Rightarrow> url_route (app fb) (elements xs ''0'') (JArr (drop 1 xs))
      | _ \<Rightarrow> url_route (app fb) options JUndef)"

definition getAction :: "FormBuilder \<Rightarrow> obj \<Rightarrow> string" where
  "getAction fb options =
     (if \<not> isNil (get_prop options ''url'') then getUrlAction fb (get_prop options ''url'')
      else if \<not> isNil (get_prop options ''route'')
      then getRouteAction fb (get_prop options ''route'')
      else url_current (app fb))"

text \<open>\<^verbatim>\<open>_getAppendage(method)\<close>\<close>

definition getAppendage :: "FormBuilder \<Rightarrow> jsval \<Rightarrow> error + string" where
  "getAppendage fb method0 =
     (case js_toUpperCase method0 of
        Inl e \<Rightarrow> Inl e
      | Inr method \<Rightarrow>
          (case (if method \<in> set spoofedMethods
                 then fst (hidden fb (Some ''_method'') (JStr method) [])
                 else Inr []) of
             Inl e \<Rightarrow> Inl e
           | Inr spoof \<Rightarrow>
               (case (if method \<noteq> ''GET'' then fst (token fb) else Inr []) of
                  Inl e \<Rightarrow> Inl e
                | Inr tok \<Rightarrow> Inr (spoof @ tok))))"

text \<open>
  \<^verbatim>\<open>open(options = { })\<close>, named \<open>open_form\<close> here. The loop over \<^verbatim>\<open>Object.keys\<close>
  that copies the options that are not reserved into the attributes is \<open>open_attributes\<close>.
  The method assigns no field of the builder; the builder is returned with the outcome
  and the caller's options so that calls can be sequenced.
\<close>

definition open_attributes :: "FormBuilder \<Rightarrow> string \<Rightarrow> obj \<Rightarrow> obj" where
  "open_attributes fb m options =
     fold (\<lambda>key attrs. if key \<in> set reserved then attrs
                        else AList.update key (get_prop options key) attrs)
       (map fst options)
       [(''method'', JStr m), (''action'', JStr (getAction fb options)),
        (''accept-charset'', JStr ''UTF-8'')]"

definition open_form ::
  "FormBuilder \<Rightarrow> obj \<Rightarrow> (error + string) \<times> obj \<times> FormBuilder" where
  "open_form fb options0 =
     (let method = (if truthy (get_prop options0 ''method'')
                    then get_prop options0 ''method'' else JStr ''post'')
      in case getMethod method of
           Inl e \<Rightarrow> (Inl e, options0, fb)
         | Inr m \<Rightarrow>
             (case getAppendage fb method of
                Inl e \<Rightarrow> (Inl e, options0, fb)
              | Inr appendage \<Rightarrow>
                  let options = (if \<not> isNil (get_prop options0 ''files'')
                                 then AList.update ''enctype'' (JStr ''multipart/form-data'')
                                        options0
                                 else options0);
                      attrs = open_attributes fb m options
                  in (Inr (''<form'' @ attributes (html fb) attrs @ ''>'' @ appendage),
                      options, fb)))"

definition setModel :: "FormBuilder \<Rightarrow> Model option \<Rightarrow> FormBuilder" where
  "setModel fb m = fb\<lparr>model := m\<rparr>"

definition close :: "FormBuilder \<Rightarrow> string \<times> FormBuilder" where
  "close fb = (''</form>'', fb\<lparr>labels := [], model := None\<rparr>)"

section \<open>Labels\<close>

text \<open>\<^verbatim>\<open>_formatLabel\<close>\<close>

definition formatLabel :: "string option \<Rightarrow> jsval \<Rightarrow> error + jsval" where
  "formatLabel name value =
     (if \<not> isNil value then Inr value
      else case name of
             None \<Rightarrow> Inl TypeError
           | Some n \<Rightarrow> Inr (JStr (upcase_boundaries False (replace_first_underscore n))))"

text \<open>\<^verbatim>\<open>label(name, value = null, options = { }, escapeHtml = true)\<close>: the name is
  recorded before anything can raise.\<close>

definition label ::
  "FormBuilder \<Rightarrow> string option \<Rightarrow> jsval \<Rightarrow> obj \<Rightarrow> jsval \<Rightarrow> (error + string) \<times> FormBuilder" where
  \<open>label fb name value0 options escapeHtml0 =
     (let value = dflt JNull value0;
          escapeHtml = dflt (JBool True) escapeHtml0;
          fb' = fb\<lparr>labels := labels fb @ [name]\<rparr>;
          optionsHtml = attributes (html fb) options
      in case formatLabel name value of
           Inl e \<Rightarrow> (Inl e, fb')
         | Inr value \<Rightarrow>
             let shown = (if truthy escapeHtml then entities (html fb) value
                          else ToString value)
             in (Inr (''<label for="'' @ ToString (name_val name) @ ''"'' @ optionsHtml
                        @ ''>'' @ shown @ ''</label>''), fb'))\<close>

section \<open>Text areas\<close>

definition setQuickTextAreaSize :: "obj \<Rightarrow> error + obj" where
  "setQuickTextAreaSize options =
     (case get_prop options ''size'' of
        JStr s \<Rightarrow>
          let segments = map JStr (split_x [] s)
          in Inr (AList.update ''rows'' (elements segments ''1'')
                   (AList.update ''cols'' (elements segments ''0'') options))
      | _ \<Rightarrow> Inl TypeError)"

definition setTextAreaSize :: "obj \<Rightarrow> error + obj" where
  "setTextAreaSize options =
     (if \<not> isNil (get_prop options ''size'') then setQuickTextAreaSize options
      else
        let cols = (if truthy (get_prop options ''cols'') then get_prop options ''cols''
                    else JNum 50);
            rows = (if truthy (get_prop options ''rows'') then get_prop options ''rows''
                    else JNum 10)
        in Inr (AList.update ''rows'' rows (AList.update ''cols'' cols options)))"

text \<open>The attribute object of \<^verbatim>\<open>textarea\<close>: the copy made by \<^verbatim>\<open>_setTextAreaSize\<close>, with
  \<^verbatim>\<open>id\<close> set and \<^verbatim>\<open>size\<close> deleted, as it stands before the value is resolved.\<close>

definition textarea_attributes :: "FormBuilder \<Rightarrow> string option \<Rightarrow> obj \<Rightarrow> error + obj" where
  "textarea_attributes fb name options =
     (case setTextAreaSize options of
        Inl e \<Rightarrow> Inl e
      | Inr sized \<Rightarrow>
          Inr (AList.delete ''size''
                (AList.update ''id'' (getIdAttribute fb name sized) sized)))"

text \<open>\<^verbatim>\<open>textarea(name, value = null, options = { })\<close>: only the name is written into the
  caller's object; \<^verbatim>\<open>getValueAttribute(name, value).toString()\<close> raises when the
  resolved value is \<^verbatim>\<open>null\<close> or \<^verbatim>\<open>undefined\<close>.\<close>

definition textarea ::
  "FormBuilder \<Rightarrow> string option \<Rightarrow> jsval \<Rightarrow> obj \<Rightarrow> (error + string) \<times> obj" where
  "textarea fb name value0 options0 =
     (let value = dflt JNull value0;
          options = (if isNil (get_prop options0 ''name'')
                     then AList.update ''name'' (name_val name) options0 else options0)
      in case textarea_attributes fb name options of
           Inl e \<Rightarrow> (Inl e, options)
         | Inr attrs \<Rightarrow>
             (case getValueAttribute fb name value of
                Inl e \<Rightarrow> (Inl e, options)
              | Inr resolved \<Rightarrow>
                  (case toString resolved of
                     Inl e \<Rightarrow> (Inl e, options)
                   | Inr s \<Rightarrow>
                       (Inr (''<textarea'' @ attributes (html fb) attrs @ ''>''
                               @ entities (html fb) (JStr s) @ ''</textarea>''),
                        options))))"

section \<open>Select boxes\<close>

text \<open>
  \<^verbatim>\<open>select\<close> and \<^verbatim>\<open>_optionGroup\<close> assign \<^verbatim>\<open>html = [ ]\<close> to an identifier that no
  scope of the module declares. A class body is strict code, where such an assignment
  raises a ReferenceError unless the global object already has a property of that name;
  when it has one, both methods share it. The functions below take the state of that
  global binding: \<open>None\<close> when there is none, the strings held by its array otherwise.
\<close>

text \<open>\<^verbatim>\<open>_getSelectedValue\<close>\<close>

definition getSelectedValue :: "jsval \<Rightarrow> jsval \<Rightarrow> error + jsval" where
  "getSelectedValue value selected =
     (case selected of
        JArr xs \<Rightarrow> Inr (if array_includes xs value then JStr ''selected'' else JNull)
      | _ \<Rightarrow>
          (case toString value of
             Inl e \<Rightarrow> Inl e
           | Inr a \<Rightarrow>
               (case toString selected of
                  Inl e \<Rightarrow> Inl e
                | Inr b \<Rightarrow> Inr (if a = b then JStr ''selected'' else JNull))))"

text \<open>\<^verbatim>\<open>_option\<close>\<close>

definition option_element :: "FormBuilder \<Rightarrow> jsval \<Rightarrow> jsval \<Rightarrow> jsval \<Rightarrow> error + string" where
  "option_element fb display value selected0 =
     (case getSelectedValue value selected0 of
        Inl e \<Rightarrow> Inl e
      | Inr selected \<Rightarrow>
          Inr (''<option'' @ attributes (html fb) [(''value'', value), (''selected'', selected)]
                 @ ''>'' @ entities (html fb) display @ ''</option>''))"

text \<open>\<^verbatim>\<open>_placeholderOption\<close>\<close>

definition placeholderOption :: "FormBuilder \<Rightarrow> jsval \<Rightarrow> jsval \<Rightarrow> error + string" where
  "placeholderOption fb display selected0 =
     (case getSelectedValue JNull selected0 of
        Inl e \<Rightarrow> Inl e
      | Inr selected \<Rightarrow>
          Inr (''<option'' @ attributes (html fb) [(''selected'', selected), (''value'', JStr [])]
                 @ ''>'' @ entities (html fb) display @ ''</option>''))"

text \<open>The loop of \<^verbatim>\<open>_optionGroup\<close>: each option is pushed onto the shared array. The
  result is the error that stopped the loop, if any, and the array.\<close>

fun optionGroup_loop ::
  "FormBuilder \<Rightarrow> jsval \<Rightarrow> jsval \<Rightarrow> jsval list \<Rightarrow> string list \<Rightarrow> error option \<times> string list" where
  "optionGroup_loop fb list selected [] acc = (None, acc)"
| "optionGroup_loop fb list selected (value # values) acc =
     (case js_index list value of
        Inl e \<Rightarrow> (Some e, acc)
      | Inr display \<Rightarrow>
          (case option_element fb display value selected of
             Inl e \<Rightarrow> (Some e, acc)
           | Inr s \<Rightarrow> optionGroup_loop fb list selected values (acc @ [s])))"

text \<open>\<^verbatim>\<open>_optionGroup\<close>. The second component is the fresh array the global binding holds
  after the call, or \<open>None\<close> when the assignment raised and nothing was bound.\<close>

definition optionGroup ::
  "FormBuilder \<Rightarrow> bool \<Rightarrow> jsval \<Rightarrow> jsval \<Rightarrow> jsval \<Rightarrow> (error + string) \<times> string list option" where
  \<open>optionGroup fb html_bound list group_label selected =
     (if \<not> html_bound then (Inl ReferenceError, None)
      else case iterate list of
             Inl e \<Rightarrow> (Inl e, Some [])
           | Inr values \<Rightarrow>
               (case optionGroup_loop fb list selected values [] of
                  (Some e, acc) \<Rightarrow> (Inl e, Some acc)
                | (None, acc) \<Rightarrow>
                    (Inr (''<optgroup label="'' @ entities (html fb) group_label @ ''">''
                            @ concat acc @ ''</optgroup>''),
                     Some acc)))\<close>

text \<open>\<^verbatim>\<open>getSelectOption\<close>: \<^verbatim>\<open>typeof display === 'object'\<close> holds of arrays, objects and
  \<^verbatim>\<open>null\<close>. The second component is \<open>None\<close> when the global array was left alone.\<close>

definition is_object :: "jsval \<Rightarrow> bool" where
  "is_object v = (case v of JArr xs \<Rightarrow> True | JObj kvs \<Rightarrow> True | JNull \<Rightarrow> True | _ \<Rightarrow> False)"

definition getSelectOption ::
  "FormBuilder \<Rightarrow> bool \<Rightarrow> jsval \<Rightarrow> jsval \<Rightarrow> jsval \<Rightarrow> (error + string) \<times> string list option" where
  "getSelectOption fb html_bound display value selected =
     (if is_object display then optionGroup fb html_bound display value selected
      else (option_element fb display value selected, None))"

text \<open>
  The loop of \<^verbatim>\<open>select\<close>. In \<^verbatim>\<open>html.push(this.getSelectOption(...))\<close> the array is read
  from the global binding before the argument is evaluated: when the argument rebinds the
  global (an option group), the push goes to the array that is no longer bound, and the
  loop goes on with the group's array.
\<close>

fun select_loop ::
  "FormBuilder \<Rightarrow> jsval \<Rightarrow> jsval \<Rightarrow> jsval list \<Rightarrow> string list \<Rightarrow> error option \<times> string list" where
  "select_loop fb list selected [] acc = (None, acc)"
| "select_loop fb list selected (value # values) acc =
     (case js_index list value of
        Inl e \<Rightarrow> (Some e, acc)
      | Inr display \<Rightarrow>
          (case getSelectOption fb True display value selected of
             (Inl e, None) \<Rightarrow> (Some e, acc)
           | (Inl e, Some rebound) \<Rightarrow> (Some e, rebound)
           | (Inr s, None) \<Rightarrow> select_loop fb list selected values (acc @ [s])
           | (Inr s, Some rebound) \<Rightarrow> select_loop fb list selected values rebound))"

text \<open>
  \<^verbatim>\<open>select(name, list = [ ], selected = null, options = { })\<close>: the outcome, the caller's
  options object as the call leaves it, and the global binding. \<^verbatim>\<open>id\<close> and \<^verbatim>\<open>name\<close> are
  written before the assignment to \<^verbatim>\<open>html\<close>; the placeholder is deleted after its option
  has been built.
\<close>

definition select ::
  "FormBuilder \<Rightarrow> string list option \<Rightarrow> string option \<Rightarrow> jsval \<Rightarrow> jsval \<Rightarrow> obj
     \<Rightarrow> (error + string) \<times> obj \<times> string list option" where
  "select fb g name list0 selected0 options0 =
     (let list = dflt (JArr []) list0
      in case getValueAttribute fb name (dflt JNull selected0) of
           Inl e \<Rightarrow> (Inl e, options0, g)
         | Inr selected \<Rightarrow>
             let options1 = AList.update ''id'' (getIdAttribute fb name options0) options0;
                 options = (if isNil (get_prop options1 ''name'')
                            then AList.update ''name'' (name_val name) options1 else options1)
             in if g = None then (Inl ReferenceError, options, None)
                else if \<not> isNil (get_prop options ''placeholder'')
                then
                  (case placeholderOption fb (get_prop options ''placeholder'') selected of
                     Inl e \<Rightarrow> (Inl e, options, Some [])
                   | Inr p \<Rightarrow>
                       let options = AList.delete ''placeholder'' options
                       in (case iterate list of
                             Inl e \<Rightarrow> (Inl e, options, Some [p])
                           | Inr values \<Rightarrow>
                               (case select_loop fb list selected values [p] of
                                  (Some e, acc) \<Rightarrow> (Inl e, options, Some acc)
                                | (None, acc) \<Rightarrow>
                                    (Inr (''<select'' @ attributes (html fb) options @ ''>''
                                            @ concat acc @ ''</select>''),
                                     options, Some acc))))
                else
                  (case iterate list of
                     Inl e \<Rightarrow> (Inl e, options, Some [])
                   | Inr values \<Rightarrow>
                       (case select_loop fb list selected values [] of
                          (Some e, acc) \<Rightarrow> (Inl e, options, Some acc)
                        | (None, acc) \<Rightarrow>
                            (Inr (''<select'' @ attributes (html fb) options @ ''>''
                                    @ concat acc @ ''</select>''),
                             options, Some acc))))"

text \<open>\<^verbatim>\<open>selectRange\<close>: the loop fills a plain object with \<^verbatim>\<open>range[i] = i\<close> for
  \<^verbatim>\<open>i = begin, ..., end\<close>.\<close>

definition selectRange ::
  "FormBuilder \<Rightarrow> string list option \<Rightarrow> string option \<Rightarrow> int \<Rightarrow> int \<Rightarrow> jsval \<Rightarrow> obj
     \<Rightarrow> (error + string) \<times> obj \<times> string list option" where
  "selectRange fb g name begin end selected options =
     select fb g name (JObj (map (\<lambda>i. (show_int i, JNum i)) [begin..end])) selected options"

section \<open>Checkboxes and radio buttons\<close>

text \<open>\<^verbatim>\<open>_missingOldAndModel\<close>: the model is read whether or not one is bound.\<close>

definition missingOldAndModel :: "FormBuilder \<Rightarrow> string option \<Rightarrow> error + bool" where
  "missingOldAndModel fb name =
     (let oldValue = old fb name
      in if \<not> isNil oldValue then Inr False
         else case getModelValueAttribute fb name of
                Inl e \<Rightarrow> Inl e
              | Inr mv \<Rightarrow> Inr (isNil mv))"

text \<open>\<^verbatim>\<open>_getCheckboxCheckedState\<close>. \<^verbatim>\<open>cast.boolean\<close> comes from an imported package and
  is a parameter.\<close>

definition getCheckboxCheckedState ::
  "(jsval \<Rightarrow> bool) \<Rightarrow> FormBuilder \<Rightarrow> string option \<Rightarrow> jsval \<Rightarrow> jsval \<Rightarrow> error + jsval" where
  "getCheckboxCheckedState cast_boolean fb name value checked =
     (if \<not> oldInputIsEmpty fb \<and> isNil (old fb name) then Inr (JBool False)
      else case missingOldAndModel fb name of
             Inl e \<Rightarrow> Inl e
           | Inr missing \<Rightarrow>
               if missing then Inr checked
               else (case getValueAttribute fb name checked of
                       Inl e \<Rightarrow> Inl e
                     | Inr posted \<Rightarrow>
                         (case posted of
                            JArr xs \<Rightarrow> Inr (JBool (array_includes xs value))
                          | _ \<Rightarrow> Inr (JBool (cast_boolean posted)))))"

text \<open>\<^verbatim>\<open>_getRadioCheckedState\<close>\<close>

definition getRadioCheckedState ::
  "FormBuilder \<Rightarrow> string option \<Rightarrow> jsval \<Rightarrow> jsval \<Rightarrow> error + jsval" where
  "getRadioCheckedState fb name value checked =
     (case missingOldAndModel fb name of
        Inl e \<Rightarrow> Inl e
      | Inr missing \<Rightarrow>
          if missing then Inr checked
          else (case getValueAttribute fb name JUndef of
                  Inl e \<Rightarrow> Inl e
                | Inr resolved \<Rightarrow> Inr (JBool (strict_eq resolved value))))"

text \<open>\<^verbatim>\<open>_getCheckedState\<close>\<close>

definition getCheckedState ::
  "(jsval \<Rightarrow> bool) \<Rightarrow> FormBuilder \<Rightarrow> string \<Rightarrow> string option \<Rightarrow> jsval \<Rightarrow> jsval
     \<Rightarrow> error + jsval" where
  "getCheckedState cast_boolean fb type name value checked =
     (if type = ''checkbox'' then getCheckboxCheckedState cast_boolean fb name value checked
      else if type = ''radio'' then getRadioCheckedState fb name value checked
      else (case getValueAttribute fb name JUndef of
              Inl e \<Rightarrow> Inl e
            | Inr resolved \<Rightarrow> Inr (JBool (strict_eq resolved value))))"

text \<open>\<^verbatim>\<open>_checkable\<close>\<close>

definition checkable ::
  "(jsval \<Rightarrow> bool) \<Rightarrow> FormBuilder \<Rightarrow> string \<Rightarrow> string option \<Rightarrow> jsval \<Rightarrow> jsval \<Rightarrow> obj
     \<Rightarrow> (error + string) \<times> obj" where
  "checkable cast_boolean fb type name value checked0 options0 =
     (case getCheckedState cast_boolean fb type name value checked0 of
        Inl e \<Rightarrow> (Inl e, options0)
      | Inr checked \<Rightarrow>
          let options = (if truthy checked
                         then AList.update ''checked'' (JStr ''checked'') options0
                         else options0)
          in input fb type name value options)"

text \<open>\<^verbatim>\<open>checkbox(name, value = 1, checked = null, options = { })\<close>\<close>

definition checkbox ::
  "(jsval \<Rightarrow> bool) \<Rightarrow> FormBuilder \<Rightarrow> string option \<Rightarrow> jsval \<Rightarrow> jsval \<Rightarrow> obj
     \<Rightarrow> (error + string) \<times> obj" where
  "checkbox cast_boolean fb name value checked options =
     checkable cast_boolean fb ''checkbox'' name (dflt (JNum 1) value) (dflt JNull checked)
       options"

text \<open>\<^verbatim>\<open>radio(name, value = null, checked = null, options = { })\<close>\<close>

definition radio ::
  "(jsval \<Rightarrow> bool) \<Rightarrow> FormBuilder \<Rightarrow> string option \<Rightarrow> jsval \<Rightarrow> jsval \<Rightarrow> obj
     \<Rightarrow> (error + string) \<times> obj" where
  "radio cast_boolean fb name value0 checked options =
     (let value = dflt JNull value0;
          value = (if isNil value then name_val name else value)
      in checkable cast_boolean fb ''radio'' name value (dflt JNull checked) options)"

section \<open>The serializer of the specification\<close>

text \<open>
  Modelled from the spec: the HTML collaborator (its source file is not at hand). Section
  6 of the specification gives attribute serialization as a leading-space-prefixed,
  HTML-escaped \<^verbatim>\<open>key="value"\<close> sequence, booleans rendered as bare attribute names and
  absent values omitted, and text escaping as a function from strings to strings. The
  characters escaped are taken to be the five of HTML.
\<close>

definition escapeHtml :: "string \<Rightarrow> string" where
  \<open>escapeHtml s =
     concat (map (\<lambda>c. if c = CHR ''&'' then ''&amp;''
                       else if c = CHR ''<'' then ''&lt;''
                       else if c = CHR ''>'' then ''&gt;''
                       else if c = CHR 0x22 then ''&quot;''
                       else if c = CHR 0x27 then ''&#039;''
                       else [c]) s)\<close>

text \<open>Modelled from the spec: one attribute of the serialization, a space and then
  \<^verbatim>\<open>key="value"\<close> with the value escaped, the bare key for a boolean, nothing for an
  absent value.\<close>

definition serializeAttribute :: "string \<times> jsval \<Rightarrow> string" where
  \<open>serializeAttribute kv =
     (case snd kv of
        JUndef \<Rightarrow> []
      | JNull \<Rightarrow> []
      | JBool b \<Rightarrow> '' '' @ fst kv
      | v \<Rightarrow> '' '' @ fst kv @ ''="'' @ escapeHtml (ToString v) @ ''"'')\<close>

text \<open>Modelled from the spec: \<^verbatim>\<open>serializeAttributes\<close>, the attributes in the order of
  the mapping.\<close>

definition serializeAttributes :: "obj \<Rightarrow> string" where
  "serializeAttributes m = concat (map serializeAttribute m)"

text \<open>Modelled from the spec: the HTML collaborator made of the two functions above;
  text that is not a string is converted before it is escaped.\<close>

definition specHtml :: HtmlBuilder where
  "specHtml = \<lparr>attributes = serializeAttributes, entities = (\<lambda>v. escapeHtml (ToString v))\<rparr>"

section \<open>Fixtures and derived notions\<close>

text \<open>A URL generator that gives every path back as it is, for concrete evaluations.\<close>

definition plainUrls :: UrlGenerator where
  "plainUrls =
     \<lparr>url_current = ''/'', url_make = (\<lambda>p q. ToString p), url_route = (\<lambda>p q. ToString p)\<rparr>"

text \<open>The markup of a hidden field with a given name and value: what \<^verbatim>\<open>input\<close> builds
  for the type \<^verbatim>\<open>hidden\<close> from an empty options object.\<close>

definition hidden_field :: "FormBuilder \<Rightarrow> string \<Rightarrow> jsval \<Rightarrow> string" where
  "hidden_field fb n v =
     ''<input'' @ attributes (html fb)
        [(''name'', JStr n), (''type'', JStr ''hidden''), (''value'', v),
         (''id'', getIdAttribute fb (Some n) [])] @ ''>''"

text \<open>The options object of \<^verbatim>\<open>select\<close> once \<^verbatim>\<open>id\<close> and \<^verbatim>\<open>name\<close> have been written.\<close>

definition select_options :: "FormBuilder \<Rightarrow> string option \<Rightarrow> obj \<Rightarrow> obj" where
  "select_options fb name options =
     (let options1 = AList.update ''id'' (getIdAttribute fb name options) options
      in if isNil (get_prop options1 ''name'')
         then AList.update ''name'' (name_val name) options1 else options1)"

section \<open>Properties\<close>

subsection \<open>Value resolution\<close>

lemma present_dflt: "present (dflt JNull v) = present v"
  by (simp add: present_def dflt_def isNil_def)

text \<open>For an absent name the explicit value is returned as passed (an omitted argument
  is \<^verbatim>\<open>null\<close>).\<close>

lemma getValueAttribute_absent_name:
  "getValueAttribute fb None v = Inr (if v = JUndef then JNull else v)"
  by (simp add: getValueAttribute_def dflt_def)

text \<open>Where the key transform of the code gives the key of the specification, value
  resolution never raises and returns, up to absence, the first available of the old
  input (unless the name is \<^verbatim>\<open>_method\<close>), the explicit value and the bound model's
  value.\<close>

lemma getValueAttribute_resolution_agreeing_key:
  assumes "transformKey n = transformKey_spec n"
  shows "\<exists>r. getValueAttribute fb (Some n) v = Inr r \<and>
           present r =
             resolveValue_spec (Some n) (present (old fb (Some n))) (present v)
               (modelValue_spec fb n)"
proof -
  have held: "modelValue_spec fb n =
      (case model fb of
         None \<Rightarrow> None
       | Some m \<Rightarrow>
           present (case getFormValue m of
                      Some f \<Rightarrow> f (transformKey n)
                    | None \<Rightarrow> get_prop (props m) (transformKey n)))"
    by (simp add: modelValue_spec_def assms split: option.splits)
  show ?thesis
  proof (cases "model fb")
    case None
    then show ?thesis
      by (simp add: getValueAttribute_def resolveValue_spec_def held
          present_def dflt_def isNil_def Let_def)
  next
    case (Some m)
    then show ?thesis
      by (cases "getFormValue m")
        (simp_all add: getValueAttribute_def getModelValueAttribute_def resolveValue_spec_def
          held present_def dflt_def isNil_def Let_def)
  qed
qed

text \<open>The two transforms agree on every name that has no space and does not end
  in \<^verbatim>\<open>[]\<close>.\<close>

lemma remove_bracket_space_bracket_no_space:
  "CHR '' '' \<notin> set s \<Longrightarrow> remove_bracket_space_bracket s = s"
  by (induction s rule: remove_bracket_space_bracket.induct) auto

lemma map_dot_brackets:
  "map (\<lambda>c. if c = CHR ''.'' then CHR ''_'' else c) xs = ''[]'' \<longleftrightarrow> xs = ''[]''"
proof (cases xs)
  case Nil
  then show ?thesis by simp
next
  case (Cons a ys)
  then show ?thesis
    by (cases ys) (auto split: if_splits)
qed

lemma remove_trailing_brackets_map:
  assumes "\<not> (2 \<le> length n \<and> drop (length n - 2) n = ''[]'')"
  shows "remove_trailing_brackets (map (\<lambda>c. if c = CHR ''.'' then CHR ''_'' else c) n)
           = map (\<lambda>c. if c = CHR ''.'' then CHR ''_'' else c) n"
  using assms
  by (auto simp: remove_trailing_brackets_def drop_map map_dot_brackets)

lemma transformKey_agrees:
  assumes "CHR '' '' \<notin> set n" and "\<not> (2 \<le> length n \<and> drop (length n - 2) n = ''[]'')"
  shows "transformKey n = transformKey_spec n"
proof -
  have "CHR '' '' \<notin> set (map (\<lambda>c. if c = CHR ''.'' then CHR ''_'' else c) n)"
    using assms(1) by auto
  then show ?thesis
    using assms(2)
    by (simp add: transformKey_def transformKey_spec_def remove_bracket_space_bracket_no_space
        remove_trailing_brackets_map)
qed

text \<open>
  C1. Evaluation of value resolution for the array field \<^verbatim>\<open>tags[]\<close>, with no explicit
  value, on a builder whose bound model holds \<^verbatim>\<open>['red']\<close> for \<^verbatim>\<open>tags\<close>. The resolution order
  of the specification gives the model's value (the key of \<^verbatim>\<open>tags[]\<close> is
  \<^verbatim>\<open>tags\<close>). The code looks the model up under the key \<^verbatim>\<open>tags.\<close>, which
  \<^verbatim>\<open>_transformKey\<close> gives because its expression for \<^verbatim>\<open>[]\<close> is written with a space, and
  returns \<^verbatim>\<open>undefined\<close>.
\<close>

theorem getValueAttribute_array_name:
  "getValueAttribute
      (fb\<lparr>model := Some \<lparr>getFormValue = None, props = [(''tags'', JArr [JStr ''red''])]\<rparr>\<rparr>)
      (Some ''tags[]'') JNull
     = Inr JUndef
   \<and> resolveValue_spec (Some ''tags[]'')
        (present (old (fb\<lparr>model := Some \<lparr>getFormValue = None,
                                         props = [(''tags'', JArr [JStr ''red''])]\<rparr>\<rparr>)
                   (Some ''tags[]'')))
        (present JNull)
        (modelValue_spec
           (fb\<lparr>model := Some \<lparr>getFormValue = None, props = [(''tags'', JArr [JStr ''red''])]\<rparr>\<rparr>)
           ''tags[]'')
     = Some (JArr [JStr ''red''])"
  by (simp add: getValueAttribute_def getModelValueAttribute_def transformKey_def
      resolveValue_spec_def modelValue_spec_def transformKey_spec_def
      remove_trailing_brackets_def present_def old_def get_prop_def dflt_def isNil_def Let_def)

lemma getValueAttribute_total: "\<exists>r. getValueAttribute fb name v = Inr r"
  by (cases name; cases "model fb"; cases "getFormValue (the (model fb))")
     (auto simp: getValueAttribute_def getModelValueAttribute_def Let_def)

lemma getValueAttribute_explicit:
  "\<not> isNil v \<Longrightarrow> getValueAttribute fb (Some n) v = Inr v"
  by (simp add: getValueAttribute_def dflt_def isNil_def old_def Let_def)

text \<open>
  C7. The key transform maps \<^verbatim>\<open>user[address][city]\<close> to \<^verbatim>\<open>user.address.city\<close>, but the
  expression that should remove \<^verbatim>\<open>[]\<close> is written \<^verbatim>\<open>/\[ \]/g\<close>, with a space: on
  \<^verbatim>\<open>tags[]\<close> it finds nothing, the opening bracket becomes a dot, and the key is
  \<^verbatim>\<open>tags.\<close> and not \<^verbatim>\<open>tags\<close>.
\<close>

theorem transformKey_empty_brackets:
  "transformKey ''tags[]'' = ''tags.''
   \<and> transformKey ''tags[]'' \<noteq> ''tags''
   \<and> transformKey ''user[address][city]'' = ''user.address.city''"
  by (simp add: transformKey_def)

subsection \<open>Hidden fields and the CSRF token\<close>

lemma hidden_fresh:
  "\<not> isNil v \<Longrightarrow>
   hidden fb (Some n) v [] =
     (Inr (hidden_field fb n v),
      [(''name'', JStr n), (''type'', JStr ''hidden''), (''value'', v),
       (''id'', getIdAttribute fb (Some n) [])])"
  by (simp add: hidden_def input_def hidden_field_def getValueAttribute_explicit
      skipValueTypes_def dflt_def isNil_def get_prop_def name_val_def getIdAttribute_def Let_def)

lemma token_fresh:
  "token fb =
     (Inr (hidden_field fb ''_token''
            (if isNil (csrfToken fb) \<or> truthy (js_length (csrfToken fb))
             then JStr ''UNSUPPORTED'' else csrfToken fb)),
      [(''name'', JStr ''_token''), (''type'', JStr ''hidden''),
       (''value'', if isNil (csrfToken fb) \<or> truthy (js_length (csrfToken fb))
                   then JStr ''UNSUPPORTED'' else csrfToken fb),
       (''id'', getIdAttribute fb (Some ''_token'') [])])"
  by (simp add: token_def hidden_fresh isNil_def Let_def)

text \<open>
  C2. Evaluation of \<^verbatim>\<open>token()\<close> on a configured token: the test
  \<^verbatim>\<open>token.isNil || token.length\<close> is true of every string that is not empty, so the
  \<^verbatim>\<open>_token\<close> field of a builder configured with such a token holds \<^verbatim>\<open>UNSUPPORTED\<close>, not
  the token; with the token \<^verbatim>\<open>abc\<close> and the serializer of the specification the field
  is \<^verbatim>\<open><input name="_token" type="hidden" value="UNSUPPORTED">\<close>.
\<close>

theorem token_configured_unsupported:
  \<open>get_prop (snd (token (fb\<lparr>csrfToken := JStr (c # cs)\<rparr>))) ''value'' = JStr ''UNSUPPORTED''
   \<and> fst (token (newFormBuilder a specHtml (JStr ''abc'')))
       = Inr ''<input name="_token" type="hidden" value="UNSUPPORTED">''\<close>
  apply (simp add: token_def hidden_fresh isNil_def get_prop_def Let_def)
  apply (simp add: hidden_field_def newFormBuilder_def specHtml_def serializeAttributes_def
      serializeAttribute_def escapeHtml_def getIdAttribute_def get_prop_def isNil_def
      name_val_def)
  done

subsection \<open>Opening a form\<close>

lemma getAppendage_string:
  "getAppendage fb (JStr s) =
     Inr ((if toUpperCase s \<in> {''DELETE'', ''PATCH'', ''PUT''}
           then hidden_field fb ''_method'' (JStr (toUpperCase s)) else [])
          @ (if toUpperCase s \<noteq> ''GET''
             then hidden_field fb ''_token''
                    (if isNil (csrfToken fb) \<or> truthy (js_length (csrfToken fb))
                     then JStr ''UNSUPPORTED'' else csrfToken fb)
             else []))"
  by (simp add: getAppendage_def js_toUpperCase_def spoofedMethods_def hidden_fresh
      token_fresh isNil_def)

text \<open>
  C3. For every options object, \<^verbatim>\<open>open\<close> takes the method from the options, \<^verbatim>\<open>post\<close>
  when there is none. When the method is a string, the result is the opening form tag,
  followed by a hidden \<^verbatim>\<open>_method\<close> field holding the upper-cased method exactly when that
  is one of DELETE, PATCH and PUT, followed by the hidden \<^verbatim>\<open>_token\<close> field exactly when
  the upper-cased method is not GET. (A method that is not a string has no
  \<^verbatim>\<open>toUpperCase\<close>, and the call raises.)
\<close>

theorem open_form_appendage:
  "fst (open_form fb options) =
     (case (if truthy (get_prop options ''method'') then get_prop options ''method''
            else JStr ''post'') of
        JStr s \<Rightarrow>
          Inr (''<form''
               @ attributes (html fb)
                   (open_attributes fb (if toUpperCase s = ''GET'' then ''GET'' else ''POST'')
                      (fst (snd (open_form fb options))))
               @ ''>''
               @ (if toUpperCase s \<in> {''DELETE'', ''PATCH'', ''PUT''}
                  then hidden_field fb ''_method'' (JStr (toUpperCase s)) else [])
               @ (if toUpperCase s \<noteq> ''GET''
                  then hidden_field fb ''_token''
                         (if isNil (csrfToken fb) \<or> truthy (js_length (csrfToken fb))
                          then JStr ''UNSUPPORTED'' else csrfToken fb)
                  else []))
      | _ \<Rightarrow> Inl TypeError)"
proof (cases "if truthy (get_prop options ''method'') then get_prop options ''method''
            else JStr ''post''")
  case (JStr s)
  then show ?thesis
    by (simp add: open_form_def getMethod_def js_toUpperCase_def getAppendage_string Let_def
        del: truthy.simps)
qed (simp_all add: open_form_def getMethod_def js_toUpperCase_def Let_def del: truthy.simps)

lemma open_form_builder: "snd (snd (open_form fb options)) = fb"
  by (simp add: open_form_def Let_def split: sum.splits)

lemma label_labels: "labels (snd (label fb name v options e)) = labels fb @ [name]"
  by (simp add: label_def Let_def split: sum.splits)

lemma label_collaborators:
  "html (snd (label fb name v options e)) = html fb
   \<and> csrfToken (snd (label fb name v options e)) = csrfToken fb"
  by (simp add: label_def Let_def split: sum.splits)

text \<open>
  C9, as the code has it. \<^verbatim>\<open>open\<close> leaves the label tracking alone: after the call the
  recorded labels are the ones recorded before it, whatever the options and whether or
  not a form is open. Only \<^verbatim>\<open>close\<close> empties them.
\<close>

theorem open_form_keeps_labels:
  "labels (snd (snd (open_form fb options))) = labels fb \<and> labels (snd (close fb)) = []"
  by (simp add: open_form_def close_def Let_def split: sum.splits)

text \<open>
  C9, as stated, fails: open a form on a new builder, emit the label \<^verbatim>\<open>first_name\<close>, open
  again before any \<^verbatim>\<open>close\<close>. The second \<^verbatim>\<open>open\<close> returns, and the label is still recorded.
\<close>

theorem open_form_labels_counterexample:
  "\<not> isl (fst (open_form
        (snd (label (snd (snd (open_form (newFormBuilder plainUrls specHtml JNull) [])))
                (Some ''first_name'') JUndef [] JUndef)) []))
   \<and> labels (snd (snd (open_form
        (snd (label (snd (snd (open_form (newFormBuilder plainUrls specHtml JNull) [])))
                (Some ''first_name'') JUndef [] JUndef)) [])))
       = [Some ''first_name'']
   \<and> labels (snd (snd (open_form
        (snd (label (snd (snd (open_form (newFormBuilder plainUrls specHtml JNull) [])))
                (Some ''first_name'') JUndef [] JUndef)) [])))
       \<noteq> []"
proof -
  have "\<not> isl (fst (open_form fb []))" for fb
    by (simp add: open_form_def getMethod_def js_toUpperCase_def getAppendage_string
        get_prop_def Let_def)
  then show ?thesis
    by (simp add: open_form_builder label_labels newFormBuilder_def)
qed

subsection \<open>Labels and ids\<close>

text \<open>
  C6, as the code has it. \<^verbatim>\<open>label('first_name')\<close> records the name and renders a label
  with \<^verbatim>\<open>for="first_name"\<close> whose text is the escaped \<^verbatim>\<open>First Name\<close>. A following
  \<^verbatim>\<open>input('text', 'first_name')\<close> on an empty options object gets the id \<^verbatim>\<open>first_name\<close>,
  and its markup is the serialization of the options object with that id. With the
  serializer of the specification, on a new builder, the two results are
  \<^verbatim>\<open><label for="first_name">First Name</label>\<close> and
  \<^verbatim>\<open><input name="first_name" type="text" id="first_name">\<close>.
\<close>

theorem label_then_input:
  \<open>label fb (Some ''first_name'') JUndef [] JUndef =
     (Inr (''<label for="first_name"'' @ attributes (html fb) [] @ ''>''
            @ entities (html fb) (JStr ''First Name'') @ ''</label>''),
      fb\<lparr>labels := labels fb @ [Some ''first_name'']\<rparr>)
   \<and> get_prop (snd (input (snd (label fb (Some ''first_name'') JUndef [] JUndef)) ''text''
                      (Some ''first_name'') JUndef [])) ''id'' = JStr ''first_name''
   \<and> fst (input (snd (label fb (Some ''first_name'') JUndef [] JUndef)) ''text''
            (Some ''first_name'') JUndef [])
     = Inr (''<input'' @ attributes (html fb)
              (snd (input (snd (label fb (Some ''first_name'') JUndef [] JUndef)) ''text''
                      (Some ''first_name'') JUndef [])) @ ''>'')
   \<and> fst (label (newFormBuilder a specHtml t) (Some ''first_name'') JUndef [] JUndef)
     = Inr ''<label for="first_name">First Name</label>''
   \<and> fst (input (snd (label (newFormBuilder a specHtml t) (Some ''first_name'') JUndef []
                          JUndef)) ''text'' (Some ''first_name'') JUndef [])
     = Inr ''<input name="first_name" type="text" id="first_name">''\<close>
proof -
  have lab: \<open>label fb (Some ''first_name'') JUndef [] JUndef =
     (Inr (''<label for="first_name"'' @ attributes (html fb) [] @ ''>''
            @ entities (html fb) (JStr ''First Name'') @ ''</label>''),
      fb\<lparr>labels := labels fb @ [Some ''first_name'']\<rparr>)\<close> for fb
    by (simp add: label_def formatLabel_def is_word_def is_ascii_def upper_char_def
        name_val_def dflt_def isNil_def Let_def)
  obtain r where r: "getValueAttribute (fb\<lparr>labels := labels fb @ [Some ''first_name'']\<rparr>)
      (Some ''first_name'') JNull = Inr r"
    using getValueAttribute_total by blast
  have inp: "input (fb\<lparr>labels := labels fb @ [Some ''first_name'']\<rparr>) ''text''
       (Some ''first_name'') JUndef [] =
     (Inr (''<input'' @ attributes (html fb)
         [(''name'', JStr ''first_name''), (''type'', JStr ''text''), (''value'', r),
          (''id'', JStr ''first_name'')] @ ''>''),
      [(''name'', JStr ''first_name''), (''type'', JStr ''text''), (''value'', r),
       (''id'', JStr ''first_name'')])"
    by (simp add: input_def r skipValueTypes_def getIdAttribute_def get_prop_def name_val_def
        dflt_def isNil_def Let_def)
  have fresh: \<open>input ((newFormBuilder a specHtml t)
         \<lparr>labels := labels (newFormBuilder a specHtml t) @ [Some ''first_name'']\<rparr>) ''text''
       (Some ''first_name'') JUndef [] =
     (Inr ''<input name="first_name" type="text" id="first_name">'',
      [(''name'', JStr ''first_name''), (''type'', JStr ''text''), (''value'', JNull),
       (''id'', JStr ''first_name'')])\<close>
    by (simp add: input_def getValueAttribute_def old_def newFormBuilder_def specHtml_def
        serializeAttributes_def serializeAttribute_def escapeHtml_def skipValueTypes_def
        getIdAttribute_def get_prop_def name_val_def dflt_def isNil_def Let_def)
  have freshlab:
    \<open>fst (label (newFormBuilder a specHtml t) (Some ''first_name'') JUndef [] JUndef)
       = Inr ''<label for="first_name">First Name</label>''\<close>
    by (simp add: lab) (simp add: newFormBuilder_def specHtml_def serializeAttributes_def
        escapeHtml_def)
  show ?thesis
    using freshlab by (simp add: lab inp fresh get_prop_def)
qed

text \<open>
  C6, as stated, fails on the label text: \<^verbatim>\<open>_formatLabel\<close> gives \<^verbatim>\<open>First Name\<close>, and on
  a new builder with the serializer of the specification the label reads \<^verbatim>\<open>First Name\<close>,
  not \<^verbatim>\<open>First name\<close>.
\<close>

theorem label_text_counterexample:
  \<open>formatLabel (Some ''first_name'') JNull = Inr (JStr ''First Name'')
   \<and> fst (label (newFormBuilder plainUrls specHtml JNull) (Some ''first_name'') JUndef []
            JUndef)
     = Inr ''<label for="first_name">First Name</label>''
   \<and> fst (label (newFormBuilder plainUrls specHtml JNull) (Some ''first_name'') JUndef []
            JUndef)
     \<noteq> Inr ''<label for="first_name">First name</label>''\<close>
  by (simp add: label_def formatLabel_def newFormBuilder_def specHtml_def
      serializeAttributes_def escapeHtml_def is_word_def is_ascii_def upper_char_def
      name_val_def dflt_def isNil_def Let_def)

subsection \<open>Text areas\<close>

text \<open>Without a \<^verbatim>\<open>size\<close> option, columns and rows that are not supplied default to 50
  and 10.\<close>

lemma setTextAreaSize_defaults:
  assumes "isNil (get_prop options ''size'')"
    and "isNil (get_prop options ''cols'')" and "isNil (get_prop options ''rows'')"
  shows "\<exists>sized. setTextAreaSize options = Inr sized
           \<and> get_prop sized ''cols'' = JNum 50 \<and> get_prop sized ''rows'' = JNum 10"
  using assms
  by (auto simp: setTextAreaSize_def isNil_def get_prop_def update_conv' Let_def)

text \<open>With a bound model that holds \<^verbatim>\<open>bio\<close>, the quick size is split into columns and
  rows and the \<^verbatim>\<open>size\<close> entry is not rendered.\<close>

lemma textarea_bio_bound_model:
  \<open>fst (textarea
          (setModel (newFormBuilder a specHtml t)
             (Some \<lparr>getFormValue = None, props = [(''bio'', JStr ''hello'')]\<rparr>))
          (Some ''bio'') JNull [(''size'', JStr ''40x5'')])
     = Inr ''<textarea name="bio" cols="40" rows="5">hello</textarea>''\<close>
  by (simp add: textarea_def textarea_attributes_def setTextAreaSize_def
      setQuickTextAreaSize_def split_x.simps elements_def getValueAttribute_def
      getModelValueAttribute_def transformKey_def getIdAttribute_def setModel_def
      newFormBuilder_def toString_def old_def specHtml_def serializeAttributes_def
      serializeAttribute_def escapeHtml_def get_prop_def name_val_def isNil_def dflt_def
      Let_def)

text \<open>
  C8. Evaluation of \<^verbatim>\<open>textarea('bio', null, {size: '40x5'})\<close> on a new builder: the
  value resolves to \<^verbatim>\<open>null\<close> (no old input, no explicit value, no model), and
  \<^verbatim>\<open>getValueAttribute(name, value).toString()\<close> raises a TypeError. Nothing is rendered;
  the caller's options object has received the name and still has its \<^verbatim>\<open>size\<close>.
\<close>

theorem textarea_absent_value_raises:
  "textarea (newFormBuilder a h t) (Some ''bio'') JNull [(''size'', JStr ''40x5'')]
     = (Inl TypeError, [(''size'', JStr ''40x5''), (''name'', JStr ''bio'')])"
  by (simp add: textarea_def textarea_attributes_def setTextAreaSize_def
      setQuickTextAreaSize_def getValueAttribute_def newFormBuilder_def toString_def old_def
      get_prop_def name_val_def isNil_def dflt_def Let_def)

subsection \<open>Checkboxes\<close>

text \<open>With a bound model that holds nothing for the name, the checked state of a checkbox
  is the caller's argument.\<close>

lemma getCheckboxCheckedState_bound_model:
  assumes "getModelValueAttribute fb (Some n) = Inr held" and "isNil held"
  shows "getCheckboxCheckedState cast_boolean fb (Some n) v checked = Inr checked"
  using assms
  by (simp add: getCheckboxCheckedState_def missingOldAndModel_def oldInputIsEmpty_def
      old_def isNil_def Let_def)

text \<open>
  C4. Evaluation of \<^verbatim>\<open>checkbox('subscribe', 1, true, {})\<close> on a builder with no bound
  model: \<^verbatim>\<open>_missingOldAndModel\<close> reads \<^verbatim>\<open>this.model.getFormValue\<close> of the \<^verbatim>\<open>null\<close>
  model, which raises a TypeError. Nothing is rendered and nothing is checked.
\<close>

theorem checkbox_unbound_model_raises:
  "checkbox cast_boolean (fb\<lparr>model := None\<rparr>) (Some ''subscribe'') (JNum 1) (JBool True) []
     = (Inl TypeError, [])"
  by (simp add: checkbox_def checkable_def getCheckedState_def getCheckboxCheckedState_def
      missingOldAndModel_def getModelValueAttribute_def oldInputIsEmpty_def old_def
      isNil_def dflt_def Let_def)

subsection \<open>Select boxes\<close>

text \<open>
  C5. Evaluation of \<^verbatim>\<open>selectRange('x', 2000, 2003)\<close>, on any builder: no select element
  is produced. Where the global object has no \<^verbatim>\<open>html\<close> property, the assignment
  \<^verbatim>\<open>html = [ ]\<close> raises a ReferenceError; where it has one, the range is a plain object,
  which \<^verbatim>\<open>for ... of\<close> cannot iterate, and the loop raises a TypeError.
\<close>

theorem selectRange_raises:
  "fst (selectRange fb g (Some ''x'') 2000 2003 JUndef [])
     = Inl (if g = None then ReferenceError else TypeError)"
proof -
  obtain r where r: "getValueAttribute fb (Some ''x'') JNull = Inr r"
    using getValueAttribute_total by blast
  show ?thesis
    by (simp add: selectRange_def select_def r dflt_def get_prop_def name_val_def isNil_def
        Let_def)
qed

subsection \<open>Options objects written in place\<close>

lemma get_prop_key: "\<not> isNil (get_prop ob k) \<Longrightarrow> k \<in> fst ` set ob"
  by (auto simp: get_prop_def isNil_def dom_map_of_conv_image_fst[symmetric]
      split: option.splits)

lemma keys_delete: "fst ` set (AList.delete k al) = fst ` set al - {k}"
  using delete_keys[of k al] by (metis image_set set_removeAll)

text \<open>\<^verbatim>\<open>input\<close> always returns, and leaves the entries \<^verbatim>\<open>type\<close>, \<^verbatim>\<open>value\<close>, \<^verbatim>\<open>id\<close> and
  \<^verbatim>\<open>name\<close> in the caller's options object.\<close>

lemma input_total: "\<exists>s. fst (input fb type name v options) = Inr s"
proof -
  obtain r where "getValueAttribute fb name (dflt JNull v) = Inr r"
    using getValueAttribute_total by blast
  then show ?thesis
    by (simp add: input_def Let_def)
qed

lemma input_writes_options:
  "{''type'', ''value'', ''id'', ''name''} \<subseteq> fst ` set (snd (input fb type name v options))"
proof -
  obtain r where r: "getValueAttribute fb name (dflt JNull v) = Inr r"
    using getValueAttribute_total by blast
  show ?thesis
    using get_prop_key[of options "''name''"]
    by (auto simp: input_def r Let_def dom_update)
qed

text \<open>\<^verbatim>\<open>_checkable\<close> writes \<^verbatim>\<open>checked\<close> into the caller's options object when the
  checked state is truthy.\<close>

lemma checkable_writes_checked:
  assumes "getCheckedState cast_boolean fb type name v c = Inr st" and "truthy st"
  shows "get_prop (snd (checkable cast_boolean fb type name v c options)) ''checked''
           = JStr ''checked''"
proof -
  obtain r where r: "getValueAttribute fb name (dflt JNull v) = Inr r"
    using getValueAttribute_total by blast
  show ?thesis
    using assms
    by (simp add: checkable_def input_def r Let_def get_prop_def update_conv')
qed

text \<open>\<^verbatim>\<open>select\<close> leaves the caller's options object with \<^verbatim>\<open>id\<close> and \<^verbatim>\<open>name\<close> written,
  with or without its placeholder, whether it returns or raises.\<close>

lemma select_options_after:
  "fst (snd (select fb g name list sel options)) = select_options fb name options \<or>
   fst (snd (select fb g name list sel options))
     = AList.delete ''placeholder'' (select_options fb name options)"
proof -
  obtain r where r: "getValueAttribute fb name (dflt JNull sel) = Inr r"
    using getValueAttribute_total by blast
  show ?thesis
    unfolding select_def select_options_def Let_def r
    by (simp split: sum.splits prod.splits option.splits)
qed

lemma select_options_keys:
  "{''id'', ''name''} \<subseteq> fst ` set (select_options fb name options)"
  using get_prop_key[of "AList.update ''id'' (getIdAttribute fb name options) options" "''name''"]
  by (auto simp: select_options_def Let_def dom_update)

lemma select_writes_id_name:
  "{''id'', ''name''} \<subseteq> fst ` set (fst (snd (select fb g name list sel options)))"
proof -
  have k: "{''id'', ''name''} \<subseteq> fst ` set (select_options fb name options)"
    by (rule select_options_keys)
  then have d: "{''id'', ''name''}
      \<subseteq> fst ` set (AList.delete ''placeholder'' (select_options fb name options))"
    unfolding keys_delete by auto
  from select_options_after[of fb g name list sel options] show ?thesis
  proof
    assume "fst (snd (select fb g name list sel options)) = select_options fb name options"
    with k show ?thesis by simp
  next
    assume "fst (snd (select fb g name list sel options))
      = AList.delete ''placeholder'' (select_options fb name options)"
    with d show ?thesis by simp
  qed
qed

text \<open>
  C10. Evaluation of \<^verbatim>\<open>select('x', [ ], null, {placeholder: 'Pick'})\<close> on a builder with
  no bound model: the call raises before it reaches \<^verbatim>\<open>delete options.placeholder\<close>, at
  \<^verbatim>\<open>html = [ ]\<close> (ReferenceError) where the global object has no \<^verbatim>\<open>html\<close> property and in
  \<^verbatim>\<open>_placeholderOption\<close> (\<^verbatim>\<open>value.toString()\<close> of \<^verbatim>\<open>null\<close>, TypeError) where it has one.
  The caller's options object keeps its placeholder entry.
\<close>

theorem select_placeholder_kept:
  "fst (select (fb\<lparr>model := None\<rparr>) g (Some ''x'') (JArr []) JNull
          [(''placeholder'', JStr ''Pick'')])
     = Inl (if g = None then ReferenceError else TypeError)
   \<and> get_prop (fst (snd (select (fb\<lparr>model := None\<rparr>) g (Some ''x'') (JArr []) JNull
          [(''placeholder'', JStr ''Pick'')]))) ''placeholder'' = JStr ''Pick''"
  by (simp add: select_def getValueAttribute_def placeholderOption_def getSelectedValue_def
      toString_def old_def dflt_def get_prop_def name_val_def isNil_def Let_def)

end
